theory Spec2Isabelle
  imports Complex_Main
begin

section \<open>Data model of \<open>src/utils/validate_data.py\<close>\<close>

text \<open>
  The validator receives a pandas dataframe. A cell holds a string, a number or a missing
  value. Numbers are Python integers (unbounded) and floats; a finite float is given by its
  exact rational value, the two infinities are separate constructors, and \<open>Null\<close> stands
  for both \<open>None\<close> and \<open>NaN\<close> (pandas treats them alike in \<open>isin\<close>, in
  \<open>to_numeric\<close> and, once coerced, in comparisons). The coercion may store an integer
  as the nearest float; rounding is monotone and the bounds 0, 120 and 200 are floats, so
  the comparisons of the validator come out the same, and the model keeps the integer. What
  pandas does with an integer beyond the range of a float is not modelled.
\<close>

datatype number = IntV int | FloatV rat | PosInf | NegInf

datatype cell = Str string | Num number | Null

type_synonym series = "cell list"

text \<open>
  A dataframe is the ordered list of its labelled columns. pandas allows a label to occur
  more than once, so the list may hold duplicates; what the code does then is part of the
  model.
\<close>

type_synonym dataframe = "(string \<times> series) list"

datatype error = KeyError | ValueError | TypeError

text \<open>The function's return type, \<open>Tuple[bool, List[str]]\<close>: the verdict and the failed checks.\<close>

type_synonym validation_result = "bool \<times> string list"

text \<open>
  The string-to-number conversion inside \<open>pd.to_numeric\<close> belongs to pandas, not to the
  validator; it is a parameter of the model. \<open>None\<close> says that the string has no numeric
  reading (with \<open>errors="coerce"\<close> the cell then becomes \<open>NaN\<close>).
\<close>

type_synonym parser = "string \<Rightarrow> number option"

section \<open>The pandas operations the validator calls\<close>

definition columns :: "dataframe \<Rightarrow> string list" where
  "columns df = map fst df"

text \<open>\<open>df[col]\<close>: every column carrying the label, in order. One column is a series; two or
  more make a dataframe again.\<close>

definition getitem :: "dataframe \<Rightarrow> string \<Rightarrow> series list" where
  "getitem df col = map snd (filter (\<lambda>p. fst p = col) df)"

text \<open>\<open>df[col] = s\<close>: overwrite the column in place, or append it when the label is new.\<close>

definition setitem :: "dataframe \<Rightarrow> string \<Rightarrow> series \<Rightarrow> dataframe" where
  "setitem df col s =
     (if col \<in> set (columns df)
      then map (\<lambda>p. if fst p = col then (fst p, s) else p) df
      else df @ [(col, s)])"

text \<open>One element of \<open>Series.isin(values)\<close> for a list of strings: only an equal string is in.\<close>

fun isin :: "string list \<Rightarrow> cell \<Rightarrow> bool" where
  "isin vals (Str s) = (s \<in> set vals)"
| "isin vals (Num n) = False"
| "isin vals Null = False"

text \<open>
  The truth value of \<open>df[col].isin(values).all()\<close>. On a duplicated label the selection is
  a dataframe, \<open>.all()\<close> yields a series, and taking its truth value raises \<open>ValueError\<close>.
\<close>

definition isin_all :: "dataframe \<Rightarrow> string \<Rightarrow> string list \<Rightarrow> error + bool" where
  "isin_all df col vals =
     (case getitem df col of
        [] \<Rightarrow> Inl KeyError
      | [s] \<Rightarrow> Inr (list_all (isin vals) s)
      | _ \<Rightarrow> Inl ValueError)"

text \<open>\<open>pd.to_numeric(s, errors="coerce")\<close>, cell by cell.\<close>

fun to_numeric_cell :: "parser \<Rightarrow> cell \<Rightarrow> cell" where
  "to_numeric_cell parse (Str s) = (case parse s of Some n \<Rightarrow> Num n | None \<Rightarrow> Null)"
| "to_numeric_cell parse (Num n) = Num n"
| "to_numeric_cell parse Null = Null"

definition to_numeric :: "parser \<Rightarrow> series \<Rightarrow> series" where
  "to_numeric parse s = map (to_numeric_cell parse) s"

text \<open>Order on numbers: the infinities lie below and above every finite value.\<close>

fun level :: "number \<Rightarrow> int" where
  "level NegInf = -1"
| "level (IntV i) = 0"
| "level (FloatV r) = 0"
| "level PosInf = 1"

fun finite_part :: "number \<Rightarrow> rat" where
  "finite_part (IntV i) = of_int i"
| "finite_part (FloatV r) = r"
| "finite_part PosInf = 0"
| "finite_part NegInf = 0"

definition num_less :: "number \<Rightarrow> number \<Rightarrow> bool" where
  "num_less a b = (level a < level b \<or> (level a = level b \<and> finite_part a < finite_part b))"

definition num_le :: "number \<Rightarrow> number \<Rightarrow> bool" where
  "num_le a b = (\<not> num_less b a)"

text \<open>One element of \<open>s < k\<close> and of \<open>s > k\<close> on a numeric series: \<open>NaN\<close> compares false.\<close>

fun cell_lt :: "int \<Rightarrow> cell \<Rightarrow> bool" where
  "cell_lt k (Num n) = num_less n (IntV k)"
| "cell_lt k c = False"

fun cell_gt :: "int \<Rightarrow> cell \<Rightarrow> bool" where
  "cell_gt k (Num n) = num_less (IntV k) n"
| "cell_gt k c = False"

fun is_str :: "cell \<Rightarrow> bool" where
  "is_str (Str s) = True"
| "is_str c = False"

text \<open>
  \<open>(df[col] < k).any()\<close> and \<open>(df[col] > k).any()\<close>. Comparing a series that still holds a
  string with an integer raises \<open>TypeError\<close>; on a duplicated label the result of
  \<open>.any()\<close> is a series, whose truth value raises \<open>ValueError\<close>.
\<close>

definition any_lt :: "dataframe \<Rightarrow> string \<Rightarrow> int \<Rightarrow> error + bool" where
  "any_lt df col k =
     (case getitem df col of
        [] \<Rightarrow> Inl KeyError
      | [s] \<Rightarrow> (if list_ex is_str s then Inl TypeError else Inr (list_ex (cell_lt k) s))
      | _ \<Rightarrow> Inl ValueError)"

definition any_gt :: "dataframe \<Rightarrow> string \<Rightarrow> int \<Rightarrow> error + bool" where
  "any_gt df col k =
     (case getitem df col of
        [] \<Rightarrow> Inl KeyError
      | [s] \<Rightarrow> (if list_ex is_str s then Inl TypeError else Inr (list_ex (cell_gt k) s))
      | _ \<Rightarrow> Inl ValueError)"

text \<open>Python's \<open>a or b\<close> on two fallible tests: \<open>b\<close> is evaluated only when \<open>a\<close> is false.\<close>

definition or_else :: "error + bool \<Rightarrow> error + bool \<Rightarrow> error + bool" where
  "or_else a b = (case a of Inl e \<Rightarrow> Inl e | Inr True \<Rightarrow> Inr True | Inr False \<Rightarrow> b)"

section \<open>The fallback validation (no Great Expectations)\<close>

definition required_columns :: "string list" where
  "required_columns =
     [''customerID'', ''gender'', ''Partner'', ''Dependents'',
      ''PhoneService'', ''InternetService'', ''Contract'',
      ''tenure'', ''MonthlyCharges'', ''TotalCharges'']"

text \<open>\<open>if not df[col].isin(vals).all(): failed_expectations.append(ident)\<close>\<close>

definition check_isin ::
  "dataframe \<Rightarrow> string \<Rightarrow> string list \<Rightarrow> string \<Rightarrow> string list \<Rightarrow> error + string list" where
  "check_isin df col vals ident failed =
     (case isin_all df col vals of
        Inl e \<Rightarrow> Inl e
      | Inr ok \<Rightarrow> Inr (if \<not> ok then failed @ [ident] else failed))"

text \<open>The loop over \<open>["Partner", "Dependents", "PhoneService"]\<close>.\<close>

fun check_yes_no :: "dataframe \<Rightarrow> string list \<Rightarrow> string list \<Rightarrow> error + string list" where
  "check_yes_no df [] failed = Inr failed"
| "check_yes_no df (col # cols) failed =
     (case check_isin df col [''Yes'', ''No''] (col @ ''_invalid'') failed of
        Inl e \<Rightarrow> Inl e
      | Inr failed' \<Rightarrow> check_yes_no df cols failed')"

text \<open>The loop \<open>for col in [...]: df[col] = pd.to_numeric(df[col], errors="coerce")\<close>;
  \<open>to_numeric\<close> rejects a dataframe (a duplicated label) with \<open>TypeError\<close>.\<close>

fun coerce_columns :: "parser \<Rightarrow> string list \<Rightarrow> dataframe \<Rightarrow> error + dataframe" where
  "coerce_columns parse [] df = Inr df"
| "coerce_columns parse (col # cols) df =
     (case getitem df col of
        [] \<Rightarrow> Inl KeyError
      | [s] \<Rightarrow> coerce_columns parse cols (setitem df col (to_numeric parse s))
      | _ \<Rightarrow> Inl TypeError)"

text \<open>\<open>if test: failed_expectations.append(ident)\<close> for a fallible test.\<close>

definition append_if :: "error + bool \<Rightarrow> string \<Rightarrow> string list \<Rightarrow> error + string list" where
  "append_if test ident failed =
     (case test of
        Inl e \<Rightarrow> Inl e
      | Inr b \<Rightarrow> Inr (if b then failed @ [ident] else failed))"

definition bind :: "error + 'a \<Rightarrow> ('a \<Rightarrow> error + 'b) \<Rightarrow> error + 'b" where
  "bind m f = (case m of Inl e \<Rightarrow> Inl e | Inr x \<Rightarrow> f x)"

text \<open>Lines 104 to 113: the value checks on the six categorical columns.\<close>

definition value_checks :: "dataframe \<Rightarrow> string list \<Rightarrow> error + string list" where
  "value_checks df failed =
     bind (check_isin df ''gender'' [''Male'', ''Female''] ''gender_invalid'' failed) (\<lambda>f1.
     bind (check_yes_no df [''Partner'', ''Dependents'', ''PhoneService''] f1) (\<lambda>f2.
     bind (check_isin df ''Contract'' [''Month-to-month'', ''One year'', ''Two year'']
             ''contract_invalid'' f2) (\<lambda>f3.
     check_isin df ''InternetService'' [''DSL'', ''Fiber optic'', ''No'']
       ''internet_invalid'' f3)))"

text \<open>Lines 119 to 125: the numeric ranges, on the coerced dataframe.\<close>

definition range_checks :: "dataframe \<Rightarrow> string list \<Rightarrow> error + string list" where
  "range_checks df failed =
     bind (append_if (or_else (any_lt df ''tenure'' 0) (any_gt df ''tenure'' 120))
             ''tenure_range'' failed) (\<lambda>f1.
     bind (append_if (or_else (any_lt df ''MonthlyCharges'' 0) (any_gt df ''MonthlyCharges'' 200))
             ''monthly_charges_range'' f1) (\<lambda>f2.
     append_if (any_lt df ''TotalCharges'' 0) ''total_charges_negative'' f2))"

text \<open>
  Lines 97 to 132. The dataframe is the caller's object and line 117 assigns into it, so
  the function returns the dataframe as the call leaves it next to the result. The
  \<open>print\<close> calls write to standard output only and are left out.
\<close>

definition fallback_validation ::
  "parser \<Rightarrow> dataframe \<Rightarrow> error + (validation_result \<times> dataframe)" where
  "fallback_validation parse df =
     (let missing_cols = filter (\<lambda>c. c \<notin> set (columns df)) required_columns in
      if missing_cols \<noteq> [] then Inr ((False, [] @ [''missing_required_columns'']), df)
      else
        bind (value_checks df []) (\<lambda>f1.
        bind (coerce_columns parse [''tenure'', ''MonthlyCharges'', ''TotalCharges''] df) (\<lambda>df'.
        bind (range_checks df' f1) (\<lambda>failed_expectations.
        if failed_expectations \<noteq> [] then Inr ((False, failed_expectations), df')
        else Inr ((True, []), df')))))"

section \<open>The Great Expectations branch\<close>

text \<open>The expectations the source registers, with the arguments it passes.\<close>

datatype expectation =
    Expect_column_to_exist string
  | Expect_column_values_to_not_be_null string
  | Expect_column_values_to_be_in_set string "string list"
  | Expect_column_values_to_be_between string "int option" "int option"
  | Expect_column_pair_values_A_to_be_greater_than_B string string bool rat

fun expectation_type :: "expectation \<Rightarrow> string" where
  "expectation_type (Expect_column_to_exist c) = ''expect_column_to_exist''"
| "expectation_type (Expect_column_values_to_not_be_null c) =
     ''expect_column_values_to_not_be_null''"
| "expectation_type (Expect_column_values_to_be_in_set c vals) =
     ''expect_column_values_to_be_in_set''"
| "expectation_type (Expect_column_values_to_be_between c lo hi) =
     ''expect_column_values_to_be_between''"
| "expectation_type (Expect_column_pair_values_A_to_be_greater_than_B a b or_equal mostly) =
     ''expect_column_pair_values_A_to_be_greater_than_B''"

text \<open>Lines 72 to 77: the cross-column consistency expectation.\<close>

definition consistency_expectation :: expectation where
  "consistency_expectation =
     Expect_column_pair_values_A_to_be_greater_than_B
       ''TotalCharges'' ''MonthlyCharges'' True (95 / 100)"

text \<open>Lines 37 to 77, in the order of the calls.\<close>

definition expectation_suite :: "expectation list" where
  "expectation_suite =
     [Expect_column_to_exist ''customerID'',
      Expect_column_values_to_not_be_null ''customerID'',
      Expect_column_to_exist ''gender'',
      Expect_column_to_exist ''Partner'',
      Expect_column_to_exist ''Dependents'',
      Expect_column_to_exist ''PhoneService'',
      Expect_column_to_exist ''InternetService'',
      Expect_column_to_exist ''Contract'',
      Expect_column_to_exist ''tenure'',
      Expect_column_to_exist ''MonthlyCharges'',
      Expect_column_to_exist ''TotalCharges'',
      Expect_column_values_to_be_in_set ''gender'' [''Male'', ''Female''],
      Expect_column_values_to_be_in_set ''Partner'' [''Yes'', ''No''],
      Expect_column_values_to_be_in_set ''Dependents'' [''Yes'', ''No''],
      Expect_column_values_to_be_in_set ''PhoneService'' [''Yes'', ''No''],
      Expect_column_values_to_be_in_set ''Contract''
        [''Month-to-month'', ''One year'', ''Two year''],
      Expect_column_values_to_be_in_set ''InternetService'' [''DSL'', ''Fiber optic'', ''No''],
      Expect_column_values_to_be_between ''tenure'' (Some 0) (Some 120),
      Expect_column_values_to_be_between ''MonthlyCharges'' (Some 0) (Some 200),
      Expect_column_values_to_be_between ''TotalCharges'' (Some 0) None,
      Expect_column_values_to_not_be_null ''tenure'',
      Expect_column_values_to_not_be_null ''MonthlyCharges'',
      consistency_expectation]"

text \<open>All values under a label.\<close>

definition column_values :: "dataframe \<Rightarrow> string \<Rightarrow> series" where
  "column_values df col = concat (getitem df col)"

fun between :: "int option \<Rightarrow> int option \<Rightarrow> cell \<Rightarrow> bool" where
  "between lo hi (Num n) =
     ((case lo of None \<Rightarrow> True | Some l \<Rightarrow> num_le (IntV l) n) \<and>
      (case hi of None \<Rightarrow> True | Some h \<Rightarrow> num_le n (IntV h)))"
| "between lo hi (Str s) = False"
| "between lo hi Null = True"

fun pair_holds :: "bool \<Rightarrow> cell \<times> cell \<Rightarrow> bool" where
  "pair_holds or_equal (Num a, Num b) = (if or_equal then num_le b a else num_less b a)"
| "pair_holds or_equal (a, b) = False"

text \<open>
  Modelled from the spec: the evaluation of an expectation is done by the
  \<open>great_expectations\<close> library, which is not part of the sources. Section 4.1 (Mode A) of
  the specification gives the meaning used here: a column exists; a column has no null
  value; every value of a column belongs to the allowed set; every value of a column lies
  within the bounds (the null values are left to the separate non-null expectation); the
  pair relation holds for at least the fraction \<open>mostly\<close> of the rows. Exceptions raised
  inside the library are not modelled.
\<close>

fun expectation_success :: "dataframe \<Rightarrow> expectation \<Rightarrow> bool" where
  "expectation_success df (Expect_column_to_exist c) = (c \<in> set (columns df))"
| "expectation_success df (Expect_column_values_to_not_be_null c) =
     (c \<in> set (columns df) \<and> list_all (\<lambda>v. v \<noteq> Null) (column_values df c))"
| "expectation_success df (Expect_column_values_to_be_in_set c vals) =
     (c \<in> set (columns df) \<and> list_all (isin vals) (column_values df c))"
| "expectation_success df (Expect_column_values_to_be_between c lo hi) =
     (c \<in> set (columns df) \<and> list_all (between lo hi) (column_values df c))"
| "expectation_success df (Expect_column_pair_values_A_to_be_greater_than_B a b or_equal mostly) =
     (a \<in> set (columns df) \<and> b \<in> set (columns df) \<and>
      (let rows = zip (column_values df a) (column_values df b) in
       mostly * of_nat (length rows) \<le> of_nat (length (filter (pair_holds or_equal) rows))))"

text \<open>
  Lines 80 to 95. \<open>results["results"]\<close> pairs every expectation with its outcome;
  \<open>results["success"]\<close> is modelled from the spec (section 4.1, Mode A, step 5): the
  validation succeeds when every expectation does.
\<close>

definition ge_results :: "dataframe \<Rightarrow> (expectation \<times> bool) list" where
  "ge_results df = map (\<lambda>e. (e, expectation_success df e)) expectation_suite"

definition ge_validation :: "dataframe \<Rightarrow> validation_result" where
  "ge_validation df =
     (let results = ge_results df;
          failed_expectations = map (\<lambda>r. expectation_type (fst r)) (filter (\<lambda>r. \<not> snd r) results)
      in if list_all snd results then (True, [])
         else (False, failed_expectations))"

section \<open>The validator\<close>

text \<open>
  \<open>validate_telco_data(df)\<close>, with the module flag \<open>GE_AVAILABLE\<close> as first argument. The
  Great Expectations branch wraps the dataframe and does not assign into it.
\<close>

definition validate_telco_data ::
  "bool \<Rightarrow> parser \<Rightarrow> dataframe \<Rightarrow> error + (validation_result \<times> dataframe)" where
  "validate_telco_data ge_available parse df =
     (if ge_available then Inr (ge_validation df, df)
      else fallback_validation parse df)"

section \<open>Notions used in the statements\<close>


text \<open>The number of rows, as the consistency check pairs them, and the number of those on
  which \<open>TotalCharges\<close> is at least \<open>MonthlyCharges\<close>.\<close>

definition row_count :: "dataframe \<Rightarrow> nat" where
  "row_count df =
     length (zip (column_values df ''TotalCharges'') (column_values df ''MonthlyCharges''))"

definition consistent_rows :: "dataframe \<Rightarrow> nat" where
  "consistent_rows df =
     length (filter (pair_holds True)
       (zip (column_values df ''TotalCharges'') (column_values df ''MonthlyCharges'')))"





text \<open>
  Closed forms of what lines 104 to 125 compute when every column they read carries a
  label of its own; they are proof devices, related to the code by
  \<open>fallback_validation_closed_form\<close> below.
\<close>

definition flag :: "bool \<Rightarrow> string \<Rightarrow> string list" where
  "flag b ident = (if b then [ident] else [])"

definition value_failures :: "dataframe \<Rightarrow> string list" where
  "value_failures df =
     flag (\<not> list_all (isin [''Male'', ''Female'']) (column_values df ''gender''))
       ''gender_invalid'' @
     flag (\<not> list_all (isin [''Yes'', ''No'']) (column_values df ''Partner''))
       ''Partner_invalid'' @
     flag (\<not> list_all (isin [''Yes'', ''No'']) (column_values df ''Dependents''))
       ''Dependents_invalid'' @
     flag (\<not> list_all (isin [''Yes'', ''No'']) (column_values df ''PhoneService''))
       ''PhoneService_invalid'' @
     flag (\<not> list_all (isin [''Month-to-month'', ''One year'', ''Two year''])
              (column_values df ''Contract''))
       ''contract_invalid'' @
     flag (\<not> list_all (isin [''DSL'', ''Fiber optic'', ''No''])
              (column_values df ''InternetService''))
       ''internet_invalid''"

definition range_failures :: "dataframe \<Rightarrow> string list" where
  "range_failures df =
     flag (list_ex (cell_lt 0) (column_values df ''tenure'') \<or>
           list_ex (cell_gt 120) (column_values df ''tenure''))
       ''tenure_range'' @
     flag (list_ex (cell_lt 0) (column_values df ''MonthlyCharges'') \<or>
           list_ex (cell_gt 200) (column_values df ''MonthlyCharges''))
       ''monthly_charges_range'' @
     flag (list_ex (cell_lt 0) (column_values df ''TotalCharges''))
       ''total_charges_negative''"

definition coerced :: "parser \<Rightarrow> dataframe \<Rightarrow> dataframe" where
  "coerced parse df =
     setitem
       (setitem
          (setitem df ''tenure'' (to_numeric parse (column_values df ''tenure'')))
          ''MonthlyCharges'' (to_numeric parse (column_values df ''MonthlyCharges'')))
       ''TotalCharges'' (to_numeric parse (column_values df ''TotalCharges''))"

text \<open>The columns the fallback branch reads: all required ones but \<open>customerID\<close>.\<close>

definition checked_columns :: "string list" where
  "checked_columns =
     [''gender'', ''Partner'', ''Dependents'', ''PhoneService'', ''Contract'',
      ''InternetService'', ''tenure'', ''MonthlyCharges'', ''TotalCharges'']"

definition single_labels :: "dataframe \<Rightarrow> bool" where
  "single_labels df = list_all (\<lambda>c. length (getitem df c) = 1) checked_columns"

section \<open>Sample data\<close>

text \<open>A parser for the examples: it reads a non-empty string of decimal digits as an integer
  and nothing else.\<close>

definition digit_value :: "char \<Rightarrow> int option" where
  "digit_value c =
     (let code = (of_char c :: nat)
      in if 48 \<le> code \<and> code \<le> 57 then Some (int code - 48) else None)"

fun digits_value :: "int \<Rightarrow> string \<Rightarrow> int option" where
  "digits_value acc [] = Some acc"
| "digits_value acc (c # cs) =
     (case digit_value c of None \<Rightarrow> None | Some d \<Rightarrow> digits_value (10 * acc + d) cs)"

definition digits_parser :: parser where
  "digits_parser s = (if s = [] then None else map_option IntV (digits_value 0 s))"

text \<open>
  Sample dataframes share the columns \<open>customerID\<close>, \<open>Partner\<close>, \<open>Dependents\<close>,
  \<open>PhoneService\<close> and \<open>InternetService\<close> of the record of scenario 1 of the
  specification; the other five columns are given row by row.
\<close>

definition telco_rows :: "series \<Rightarrow> series \<Rightarrow> series \<Rightarrow> series \<Rightarrow> series \<Rightarrow> dataframe" where
  "telco_rows gender contract tenure monthly charges =
     [(''customerID'', map (\<lambda>_. Str ''1'') gender),
      (''gender'', gender),
      (''Partner'', map (\<lambda>_. Str ''Yes'') gender),
      (''Dependents'', map (\<lambda>_. Str ''No'') gender),
      (''PhoneService'', map (\<lambda>_. Str ''Yes'') gender),
      (''InternetService'', map (\<lambda>_. Str ''Fiber optic'') gender),
      (''Contract'', contract),
      (''tenure'', tenure),
      (''MonthlyCharges'', monthly),
      (''TotalCharges'', charges)]"

text \<open>The record of scenario 1, as a one-row dataframe.\<close>

definition sample_df :: dataframe where
  "sample_df =
     telco_rows [Str ''Male''] [Str ''Month-to-month''] [Num (IntV 5)]
       [Num (FloatV (1407 / 20))] [Num (FloatV (1403 / 4))]"


text \<open>Scenario 4: the record without its \<open>Contract\<close> column.\<close>

definition no_contract_df :: dataframe where
  "no_contract_df = filter (\<lambda>p. fst p \<noteq> ''Contract'') sample_df"


text \<open>The numeric columns as text, the way a CSV reader leaves a column with blanks in
  it: \<open>TotalCharges\<close> is blank in the first row.\<close>

definition text_charges_df :: dataframe where
  "text_charges_df =
     telco_rows [Str ''Male'', Str ''Female''] [Str ''Month-to-month'', Str ''One year'']
       [Num (IntV 0), Num (IntV 5)]
       [Num (FloatV (1407 / 20)), Num (IntV 20)]
       [Str '' '', Str ''350'']"

text \<open>The same dataframe once its numeric columns are coerced by \<open>digits_parser\<close>.\<close>

definition text_charges_coerced_df :: dataframe where
  "text_charges_coerced_df =
     telco_rows [Str ''Male'', Str ''Female''] [Str ''Month-to-month'', Str ''One year'']
       [Num (IntV 0), Num (IntV 5)]
       [Num (FloatV (1407 / 20)), Num (IntV 20)]
       [Null, Num (IntV 350)]"


text \<open>
  Scenario 5: twenty rows of the record of scenario 1, of which the first \<open>k\<close> have
  \<open>TotalCharges = 10\<close> below \<open>MonthlyCharges = 70.35\<close>.
\<close>

definition twenty_rows :: "nat \<Rightarrow> dataframe" where
  "twenty_rows k =
     telco_rows (replicate 20 (Str ''Male'')) (replicate 20 (Str ''Month-to-month''))
       (replicate 20 (Num (IntV 5))) (replicate 20 (Num (FloatV (1407 / 20))))
       (replicate k (Num (IntV 10)) @ replicate (20 - k) (Num (FloatV (1403 / 4))))"

section \<open>Selecting and overwriting columns\<close>

lemma getitem_Nil_iff: "getitem df c = [] \<longleftrightarrow> c \<notin> set (columns df)"
  by (induction df) (auto simp: getitem_def columns_def)


lemma getitem_length_one: "length (getitem df c) = 1 \<longleftrightarrow> getitem df c = [column_values df c]"
  by (cases "getitem df c") (auto simp: column_values_def)



lemma single_labelsD:
  "single_labels df \<Longrightarrow> c \<in> set checked_columns \<Longrightarrow> getitem df c = [column_values df c]"
proof -
  assume "single_labels df" and "c \<in> set checked_columns"
  then have "length (getitem df c) = 1" unfolding single_labels_def list_all_iff by blast
  then show ?thesis by (simp only: getitem_length_one)
qed

lemma columns_setitem: "c \<in> set (columns df) \<Longrightarrow> columns (setitem df c s) = columns df"
  by (induction df) (auto simp: setitem_def columns_def)

lemma getitem_overwrite:
  "getitem (map (\<lambda>p. if fst p = c then (fst p, s) else p) df) c' =
   (if c' = c then map (\<lambda>_. s) (getitem df c) else getitem df c')"
  by (induction df) (auto simp: getitem_def)

lemma getitem_setitem:
  "c \<in> set (columns df) \<Longrightarrow>
   getitem (setitem df c s) c' = (if c' = c then map (\<lambda>_. s) (getitem df c) else getitem df c')"
  by (simp only: setitem_def if_True getitem_overwrite)

lemma getitem_in_columns: "getitem df c = [s] \<Longrightarrow> c \<in> set (columns df)"
  using getitem_Nil_iff [of df c] by auto

lemma getitem_setitem_single:
  "getitem df c = [s] \<Longrightarrow>
   getitem (setitem df c t) c' = (if c' = c then [t] else getitem df c')"
  by (simp add: getitem_setitem getitem_in_columns)

lemma check_isin_single:
  "getitem df c = [column_values df c] \<Longrightarrow>
   check_isin df c vals ident failed =
     Inr (failed @ flag (\<not> list_all (isin vals) (column_values df c)) ident)"
  by (simp add: check_isin_def isin_all_def flag_def)

lemma value_checks_closed:
  assumes "single_labels df"
  shows "value_checks df failed = Inr (failed @ value_failures df)"
proof -
  note s = single_labelsD [OF assms]
  have g: "getitem df ''gender'' = [column_values df ''gender'']"
    and p: "getitem df ''Partner'' = [column_values df ''Partner'']"
    and d: "getitem df ''Dependents'' = [column_values df ''Dependents'']"
    and ph: "getitem df ''PhoneService'' = [column_values df ''PhoneService'']"
    and c: "getitem df ''Contract'' = [column_values df ''Contract'']"
    and i: "getitem df ''InternetService'' = [column_values df ''InternetService'']"
    by (rule s, simp add: checked_columns_def)+
  show ?thesis
    unfolding value_checks_def value_failures_def bind_def
    by (simp add: check_isin_single [OF g] check_isin_single [OF p] check_isin_single [OF d]
        check_isin_single [OF ph] check_isin_single [OF c] check_isin_single [OF i])
qed

lemma getitem_coerced:
  assumes "single_labels df"
  shows "getitem (coerced parse df) c =
    (if c \<in> {''tenure'', ''MonthlyCharges'', ''TotalCharges''}
     then [to_numeric parse (column_values df c)] else getitem df c)"
proof -
  note s = single_labelsD [OF assms]
  have t: "getitem df ''tenure'' = [column_values df ''tenure'']"
    and m: "getitem df ''MonthlyCharges'' = [column_values df ''MonthlyCharges'']"
    and tc: "getitem df ''TotalCharges'' = [column_values df ''TotalCharges'']"
    by (rule s, simp add: checked_columns_def)+
  let ?d1 = "setitem df ''tenure'' (to_numeric parse (column_values df ''tenure''))"
  let ?d2 = "setitem ?d1 ''MonthlyCharges'' (to_numeric parse (column_values df ''MonthlyCharges''))"
  have m1: "getitem ?d1 ''MonthlyCharges'' = [column_values df ''MonthlyCharges'']"
    by (simp add: getitem_setitem_single [OF t] m)
  have tc2: "getitem ?d2 ''TotalCharges'' = [column_values df ''TotalCharges'']"
    by (simp add: getitem_setitem_single [OF m1] getitem_setitem_single [OF t] tc)
  show ?thesis
    unfolding coerced_def
    by (simp add: getitem_setitem_single [OF tc2] getitem_setitem_single [OF m1]
        getitem_setitem_single [OF t])
qed

lemma coerce_columns_closed:
  assumes "single_labels df"
  shows "coerce_columns parse [''tenure'', ''MonthlyCharges'', ''TotalCharges''] df =
         Inr (coerced parse df)"
proof -
  note s = single_labelsD [OF assms]
  have t: "getitem df ''tenure'' = [column_values df ''tenure'']"
    and m: "getitem df ''MonthlyCharges'' = [column_values df ''MonthlyCharges'']"
    and tc: "getitem df ''TotalCharges'' = [column_values df ''TotalCharges'']"
    by (rule s, simp add: checked_columns_def)+
  let ?d1 = "setitem df ''tenure'' (to_numeric parse (column_values df ''tenure''))"
  let ?d2 = "setitem ?d1 ''MonthlyCharges'' (to_numeric parse (column_values df ''MonthlyCharges''))"
  have m1: "getitem ?d1 ''MonthlyCharges'' = [column_values df ''MonthlyCharges'']"
    by (simp add: getitem_setitem_single [OF t] m)
  have tc2: "getitem ?d2 ''TotalCharges'' = [column_values df ''TotalCharges'']"
    by (simp add: getitem_setitem_single [OF m1] getitem_setitem_single [OF t] tc)
  show ?thesis
    by (simp add: t m1 tc2 coerced_def)
qed

lemma single_labels_coerced: "single_labels df \<Longrightarrow> single_labels (coerced parse df)"
  by (simp add: single_labels_def checked_columns_def getitem_coerced
      [unfolded single_labels_def checked_columns_def])

lemma column_values_coerced:
  "single_labels df \<Longrightarrow>
   column_values (coerced parse df) c =
    (if c \<in> {''tenure'', ''MonthlyCharges'', ''TotalCharges''}
     then to_numeric parse (column_values df c) else column_values df c)"
  by (simp add: column_values_def [of "coerced parse df"] getitem_coerced)
     (simp add: column_values_def)

lemma to_numeric_no_str: "\<not> list_ex is_str (to_numeric parse s)"
proof -
  have "\<not> is_str (to_numeric_cell parse c)" for c
    by (cases c) (auto split: option.splits)
  then show ?thesis by (simp add: to_numeric_def list_ex_iff)
qed

lemma any_lt_single:
  "getitem d c = [to_numeric parse s] \<Longrightarrow> any_lt d c k = Inr (list_ex (cell_lt k) (to_numeric parse s))"
  by (simp add: any_lt_def to_numeric_no_str)

lemma any_gt_single:
  "getitem d c = [to_numeric parse s] \<Longrightarrow> any_gt d c k = Inr (list_ex (cell_gt k) (to_numeric parse s))"
  by (simp add: any_gt_def to_numeric_no_str)

lemma or_else_Inr: "or_else (Inr a) (Inr b) = Inr (a \<or> b)"
  by (cases a) (simp_all add: or_else_def)

lemma append_if_Inr: "append_if (Inr b) ident failed = Inr (failed @ flag b ident)"
  by (simp add: append_if_def flag_def)

lemma bind_Inr: "bind (Inr x) f = f x"
  by (simp add: bind_def)

lemma range_checks_closed:
  assumes "single_labels df"
  shows "range_checks (coerced parse df) failed =
         Inr (failed @ range_failures (coerced parse df))"
proof -
  let ?d = "coerced parse df"
  have t: "getitem ?d ''tenure'' = [to_numeric parse (column_values df ''tenure'')]"
    and m: "getitem ?d ''MonthlyCharges'' = [to_numeric parse (column_values df ''MonthlyCharges'')]"
    and tc: "getitem ?d ''TotalCharges'' = [to_numeric parse (column_values df ''TotalCharges'')]"
    by (simp_all add: getitem_coerced [OF assms])
  have cv: "column_values ?d ''tenure'' = to_numeric parse (column_values df ''tenure'')"
    "column_values ?d ''MonthlyCharges'' = to_numeric parse (column_values df ''MonthlyCharges'')"
    "column_values ?d ''TotalCharges'' = to_numeric parse (column_values df ''TotalCharges'')"
    by (simp_all add: column_values_coerced [OF assms])
  show ?thesis
    unfolding range_checks_def range_failures_def cv
    by (simp only: any_lt_single [OF t] any_gt_single [OF t] any_lt_single [OF m]
        any_gt_single [OF m] any_lt_single [OF tc] or_else_Inr append_if_Inr bind_Inr
        append_assoc)
qed

lemma missing_iff:
  "filter (\<lambda>c. c \<notin> set (columns df)) required_columns \<noteq> [] \<longleftrightarrow>
   \<not> set required_columns \<subseteq> set (columns df)"
  by (auto simp: filter_empty_conv)

lemma fallback_validation_missing:
  "\<not> set required_columns \<subseteq> set (columns df) \<Longrightarrow>
   fallback_validation parse df = Inr ((False, [''missing_required_columns'']), df)"
  unfolding fallback_validation_def Let_def missing_iff by simp

lemma fallback_validation_closed_form:
  assumes "set required_columns \<subseteq> set (columns df)" and "single_labels df"
  shows "fallback_validation parse df =
     Inr ((value_failures df @ range_failures (coerced parse df) = [],
           value_failures df @ range_failures (coerced parse df)),
          coerced parse df)"
  unfolding fallback_validation_def Let_def missing_iff
  using assms(1)
  by (simp add: bind_def value_checks_closed [OF assms(2)] coerce_columns_closed [OF assms(2)]
      range_checks_closed [OF assms(2)] del: coerce_columns.simps)

section \<open>Closed forms and fixed points of the fallback branch\<close>

lemma failing_result_nonempty:
  "\<not> list_all snd rs \<Longrightarrow> map f (filter (\<lambda>r. \<not> snd r) rs) \<noteq> []"
  by (auto simp: list_all_iff filter_empty_conv)


lemma flag_Nil_iff: "flag b ident = [] \<longleftrightarrow> \<not> b"
  by (simp add: flag_def)




lemma to_numeric_cell_idem:
  "to_numeric_cell parse (to_numeric_cell parse c) = to_numeric_cell parse c"
  by (cases c) (auto split: option.splits)

lemma to_numeric_idem: "to_numeric parse (to_numeric parse s) = to_numeric parse s"
  by (simp add: to_numeric_def to_numeric_cell_idem)


lemma setitem_same:
  assumes "getitem df c = [s]"
  shows "setitem df c s = df"
proof -
  have "snd p = s" if "p \<in> set df" and "fst p = c" for p
  proof -
    from that have "snd p \<in> set (getitem df c)" by (auto simp: getitem_def)
    with assms show ?thesis by simp
  qed
  then have "map (\<lambda>p. if fst p = c then (fst p, s) else p) df = df"
    by (intro map_idI) auto
  with getitem_in_columns [OF assms] show ?thesis by (simp add: setitem_def)
qed

lemma coerced_fixpoint:
  assumes "single_labels df"
    and "to_numeric parse (column_values df ''tenure'') = column_values df ''tenure''"
    and "to_numeric parse (column_values df ''MonthlyCharges'') = column_values df ''MonthlyCharges''"
    and "to_numeric parse (column_values df ''TotalCharges'') = column_values df ''TotalCharges''"
  shows "coerced parse df = df"
proof -
  note s = single_labelsD [OF assms(1)]
  have t: "getitem df ''tenure'' = [column_values df ''tenure'']"
    and m: "getitem df ''MonthlyCharges'' = [column_values df ''MonthlyCharges'']"
    and tc: "getitem df ''TotalCharges'' = [column_values df ''TotalCharges'']"
    by (rule s, simp add: checked_columns_def)+
  show ?thesis
    unfolding coerced_def assms(2,3,4)
    by (simp only: setitem_same [OF t] setitem_same [OF m] setitem_same [OF tc])
qed

lemma coerced_idem:
  assumes "single_labels df"
  shows "coerced parse (coerced parse df) = coerced parse df"
  by (rule coerced_fixpoint)
     (simp_all add: single_labels_coerced [OF assms] column_values_coerced [OF assms]
       to_numeric_idem)

lemma columns_coerced:
  assumes "single_labels df"
  shows "columns (coerced parse df) = columns df"
proof -
  note s = single_labelsD [OF assms(1)]
  have t: "getitem df ''tenure'' = [column_values df ''tenure'']"
    and m: "getitem df ''MonthlyCharges'' = [column_values df ''MonthlyCharges'']"
    and tc: "getitem df ''TotalCharges'' = [column_values df ''TotalCharges'']"
    by (rule s, simp add: checked_columns_def)+
  from t m tc show ?thesis
    by (simp add: coerced_def columns_setitem getitem_in_columns)
qed

lemma check_isin_Inr:
  "check_isin df c vals ident failed = Inr failed' \<Longrightarrow> length (getitem df c) = 1"
  by (auto simp: check_isin_def isin_all_def split: list.splits sum.splits)

lemma value_checks_Inr:
  assumes "value_checks df failed = Inr failed'"
  shows "list_all (\<lambda>c. length (getitem df c) = 1)
           [''gender'', ''Partner'', ''Dependents'', ''PhoneService'', ''Contract'',
            ''InternetService'']"
  using assms unfolding value_checks_def bind_def
  by (auto split: sum.splits dest!: check_isin_Inr)

lemma coerce_columns_Inr:
  assumes "coerce_columns parse [''tenure'', ''MonthlyCharges'', ''TotalCharges''] df = Inr d"
  shows "list_all (\<lambda>c. length (getitem df c) = 1)
           [''tenure'', ''MonthlyCharges'', ''TotalCharges'']"
proof -
  from assms obtain t where t: "getitem df ''tenure'' = [t]"
    by (auto split: list.splits)
  let ?d1 = "setitem df ''tenure'' (to_numeric parse t)"
  from assms t obtain m where m1: "getitem ?d1 ''MonthlyCharges'' = [m]"
    by (auto split: list.splits)
  then have m: "getitem df ''MonthlyCharges'' = [m]"
    by (simp add: getitem_setitem_single [OF t])
  let ?d2 = "setitem ?d1 ''MonthlyCharges'' (to_numeric parse m)"
  from assms t m1 obtain tc where tc2: "getitem ?d2 ''TotalCharges'' = [tc]"
    by (auto split: list.splits)
  then have "getitem df ''TotalCharges'' = [tc]"
    by (simp add: getitem_setitem_single [OF m1] getitem_setitem_single [OF t])
  with t m show ?thesis by simp
qed

lemma fallback_Inr_single:
  assumes "set required_columns \<subseteq> set (columns df)"
    and "fallback_validation parse df = Inr x"
  shows "single_labels df"
proof -
  from assms obtain f1 d where v: "value_checks df [] = Inr f1"
    and c: "coerce_columns parse [''tenure'', ''MonthlyCharges'', ''TotalCharges''] df = Inr d"
    unfolding fallback_validation_def Let_def missing_iff bind_def
    by (auto split: sum.splits simp del: coerce_columns.simps)
  from value_checks_Inr [OF v] coerce_columns_Inr [OF c] show ?thesis
    by (simp add: single_labels_def checked_columns_def)
qed


lemma validate_fallback_Inr:
  assumes "validate_telco_data False parse df = Inr (res, df')"
    and "set required_columns \<subseteq> set (columns df)"
  shows "single_labels df" and "df' = coerced parse df"
    and "res = (value_failures df @ range_failures (coerced parse df) = [],
                value_failures df @ range_failures (coerced parse df))"
proof -
  from assms(1) have f: "fallback_validation parse df = Inr (res, df')"
    by (simp add: validate_telco_data_def)
  from assms(2) f show s: "single_labels df" by (rule fallback_Inr_single)
  have "fallback_validation parse df =
      Inr ((value_failures df @ range_failures (coerced parse df) = [],
            value_failures df @ range_failures (coerced parse df)),
           coerced parse df)"
    using assms(2) s by (rule fallback_validation_closed_form)
  with f have "(res, df') =
      ((value_failures df @ range_failures (coerced parse df) = [],
        value_failures df @ range_failures (coerced parse df)),
       coerced parse df)"
    by (simp only: sum.inject)
  then show "df' = coerced parse df"
    and "res = (value_failures df @ range_failures (coerced parse df) = [],
                value_failures df @ range_failures (coerced parse df))"
    by (simp_all only: prod.inject)
qed

lemma value_failures_coerced:
  "single_labels df \<Longrightarrow> value_failures (coerced parse df) = value_failures df"
  by (simp add: value_failures_def column_values_coerced)

lemma validate_unchanged:
  assumes "ge \<or> \<not> set required_columns \<subseteq> set (columns df)"
    and "validate_telco_data ge parse df = Inr (res, df')"
  shows "df' = df"
proof (cases ge)
  case True
  with assms(2) show ?thesis by (simp add: validate_telco_data_def)
next
  case False
  with assms(1) have "\<not> set required_columns \<subseteq> set (columns df)" by simp
  with False assms(2) show ?thesis
    by (simp add: validate_telco_data_def fallback_validation_missing)
qed

section \<open>Valid values, tolerated values and the expectation suite\<close>
















lemma mostly_threshold:
  "(95 / 100 :: rat) * of_nat n \<le> of_nat g \<longleftrightarrow> 95 * n \<le> 100 * g"
proof -
  have "(95 / 100 :: rat) * of_nat n \<le> of_nat g \<longleftrightarrow>
        (of_nat (95 * n) :: rat) \<le> of_nat (100 * g)"
    by (simp add: field_simps)
  also have "\<dots> \<longleftrightarrow> 95 * n \<le> 100 * g" by (simp only: of_nat_le_iff)
  finally show ?thesis .
qed

lemma consistency_success:
  assumes "''TotalCharges'' \<in> set (columns df)" and "''MonthlyCharges'' \<in> set (columns df)"
  shows "expectation_success df consistency_expectation \<longleftrightarrow>
     95 * row_count df \<le> 100 * consistent_rows df"
  unfolding consistency_expectation_def expectation_success.simps Let_def row_count_def
    consistent_rows_def mostly_threshold
  using assms by (simp only: simp_thms)


lemma failed_types:
  "set (snd (ge_validation df)) =
   expectation_type ` {e \<in> set expectation_suite. \<not> expectation_success df e}"
proof (cases "list_all snd (ge_results df)")
  case True
  then have "{e \<in> set expectation_suite. \<not> expectation_success df e} = {}"
    by (auto simp: ge_results_def list_all_iff)
  with True show ?thesis by (simp add: ge_validation_def Let_def)
next
  case False
  have "set (map (\<lambda>r. expectation_type (fst r)) (filter (\<lambda>r. \<not> snd r) (ge_results df))) =
        expectation_type ` {e \<in> set expectation_suite. \<not> expectation_success df e}"
    unfolding ge_results_def by (force simp: image_iff)
  with False show ?thesis by (simp add: ge_validation_def Let_def)
qed

lemma pair_type_unique:
  "e \<in> set expectation_suite \<Longrightarrow>
   expectation_type e = ''expect_column_pair_values_A_to_be_greater_than_B'' \<Longrightarrow>
   e = consistency_expectation"
  by (auto simp: expectation_suite_def)

lemma consistency_in_suite: "consistency_expectation \<in> set expectation_suite"
  by (simp add: expectation_suite_def)

lemma consistency_type:
  "expectation_type consistency_expectation =
   ''expect_column_pair_values_A_to_be_greater_than_B''"
  by (simp add: consistency_expectation_def)

lemma fraction_threshold:
  assumes "0 < n"
  shows "(95 / 100 :: rat) \<le> of_nat g / of_nat n \<longleftrightarrow> 95 * n \<le> 100 * g"
proof -
  from assms have "(95 / 100 :: rat) \<le> of_nat g / of_nat n \<longleftrightarrow>
      (95 / 100 :: rat) * of_nat n \<le> of_nat g"
    by (simp add: pos_le_divide_eq)
  then show ?thesis by (simp only: mostly_threshold)
qed

section \<open>Missing required columns\<close>

text \<open>
  C1. Whenever the dataset lacks at least one required column, the fallback mode returns
  the verdict \<open>False\<close> with exactly the one identifier \<open>missing_required_columns\<close>. No
  other check runs: the result does not depend on any cell, no selection can raise, and
  the dataset is handed back as it came (the coercion has not touched it).
\<close>

theorem missing_required_columns_short_circuit:
  "\<not> set required_columns \<subseteq> set (columns df) \<Longrightarrow>
   validate_telco_data False parse df = Inr ((False, [''missing_required_columns'']), df)"
  by (simp add: validate_telco_data_def fallback_validation_missing)

theorem missing_required_columns_short_circuit_witness:
  "\<not> set required_columns \<subseteq> set (columns no_contract_df) \<and>
   validate_telco_data False digits_parser no_contract_df =
     Inr ((False, [''missing_required_columns'']), no_contract_df)"
proof -
  have h: "\<not> set required_columns \<subseteq> set (columns no_contract_df)"
    by (simp add: required_columns_def columns_def no_contract_df_def sample_df_def
        telco_rows_def)
  from h missing_required_columns_short_circuit [OF h, of digits_parser] show ?thesis by simp
qed

section \<open>The result invariant\<close>

text \<open>
  C9. Whenever \<open>validate_telco_data\<close> returns, in either mode, the list of failed checks
  is empty exactly when the verdict is \<open>True\<close>. In the fallback mode this is lines 99 to
  102 and 127 to 132; in the Great Expectations mode lines 89 to 95 return the empty list
  on success and otherwise the types of the failed expectations, of which there is at least
  one because the overall success is the conjunction of the single outcomes.
\<close>

theorem result_invariant:
  "validate_telco_data ge parse df = Inr ((passed, failed), df') \<Longrightarrow> (failed = [] \<longleftrightarrow> passed)"
proof (cases ge)
  case True
  assume "validate_telco_data ge parse df = Inr ((passed, failed), df')"
  with True have "ge_validation df = (passed, failed)"
    by (auto simp: validate_telco_data_def)
  then show ?thesis
    using failing_result_nonempty [of "ge_results df" "\<lambda>r. expectation_type (fst r)"]
    by (auto simp: ge_validation_def Let_def split: if_splits)
next
  case False
  assume "validate_telco_data ge parse df = Inr ((passed, failed), df')"
  with False have "fallback_validation parse df = Inr ((passed, failed), df')"
    by (simp add: validate_telco_data_def)
  then show ?thesis
    unfolding fallback_validation_def Let_def bind_def
    by (auto split: if_splits sum.splits)
qed

theorem result_invariant_witness:
  "validate_telco_data False digits_parser (setitem sample_df ''tenure'' [Str ''150'']) =
     Inr ((False, [''tenure_range'']), setitem sample_df ''tenure'' [Num (IntV 150)]) \<and>
   ([''tenure_range''] = [] \<longleftrightarrow> False)"
proof -
  have h: "validate_telco_data False digits_parser (setitem sample_df ''tenure'' [Str ''150'']) =
     Inr ((False, [''tenure_range'']), setitem sample_df ''tenure'' [Num (IntV 150)])"
    by code_simp
  from h result_invariant [OF h] show ?thesis by simp
qed

section \<open>The fallback mode returns a result\<close>

text \<open>
  The error branches of the model are reachable: a dataframe in which a label occurs
  twice makes the truth test of line 105 raise.
\<close>

lemma duplicated_label_raises:
  "validate_telco_data False digits_parser (sample_df @ [(''gender'', [Str ''Male''])]) =
     Inl ValueError"
  by code_simp



section \<open>Every check of the fallback mode runs\<close>



section \<open>An invalid gender is reported\<close>



section \<open>Calling the validator twice\<close>

text \<open>
  C5. A second call on the same dataframe object, which the first call may have
  coerced in place, returns the same result as the first call (and leaves the dataframe
  as the first call left it).
\<close>

theorem validate_twice:
  assumes "validate_telco_data ge parse df = Inr (res, df')"
  shows "validate_telco_data ge parse df' = Inr (res, df')"
proof (cases "ge \<or> \<not> set required_columns \<subseteq> set (columns df)")
  case True
  from True assms have "df' = df" by (rule validate_unchanged)
  with assms show ?thesis by simp
next
  case False
  then have ge: "\<not> ge" and req: "set required_columns \<subseteq> set (columns df)" by simp_all
  from assms ge have run: "validate_telco_data False parse df = Inr (res, df')" by simp
  note r = validate_fallback_Inr [OF run req]
  from r(1) have s': "single_labels (coerced parse df)" by (rule single_labels_coerced)
  from req r(1) have req': "set required_columns \<subseteq> set (columns (coerced parse df))"
    by (simp add: columns_coerced)
  have "fallback_validation parse (coerced parse df) = Inr (res, coerced parse df)"
    by (simp add: fallback_validation_closed_form [OF req' s'] coerced_idem [OF r(1)]
        value_failures_coerced [OF r(1)] r(3))
  with ge r(2) show ?thesis by (simp add: validate_telco_data_def)
qed

theorem validate_twice_witness:
  "validate_telco_data False digits_parser text_charges_df =
     Inr ((True, []), text_charges_coerced_df) \<and>
   validate_telco_data False digits_parser text_charges_coerced_df =
     Inr ((True, []), text_charges_coerced_df)"
proof -
  have h: "validate_telco_data False digits_parser text_charges_df =
     Inr ((True, []), text_charges_coerced_df)"
    by code_simp
  from h validate_twice [OF h] show ?thesis by simp
qed

section \<open>What the call does to the caller's dataframe\<close>




section \<open>Unparseable numeric values\<close>



section \<open>A valid dataset passes in both modes\<close>



section \<open>The threshold of the consistency check\<close>

text \<open>
  C4. In the Great Expectations mode the cross-column consistency check passes exactly
  when the rows with \<open>TotalCharges\<close> at least \<open>MonthlyCharges\<close> make up 95 percent of the
  rows or more, and its expectation type is reported as failed exactly when they do not.
  With one violating row in twenty the check passes; with two in twenty it fails.
\<close>

theorem consistency_threshold:
  assumes "''TotalCharges'' \<in> set (columns df)" and "''MonthlyCharges'' \<in> set (columns df)"
  shows "(expectation_success df consistency_expectation \<longleftrightarrow>
            95 * row_count df \<le> 100 * consistent_rows df) \<and>
         (0 < row_count df \<longrightarrow>
            (expectation_success df consistency_expectation \<longleftrightarrow>
               (95 / 100 :: rat) \<le> of_nat (consistent_rows df) / of_nat (row_count df))) \<and>
         (''expect_column_pair_values_A_to_be_greater_than_B'' \<in> set (snd (ge_validation df)) \<longleftrightarrow>
            \<not> 95 * row_count df \<le> 100 * consistent_rows df)"
proof -
  note c = consistency_success [OF assms]
  have "''expect_column_pair_values_A_to_be_greater_than_B'' \<in> set (snd (ge_validation df)) \<longleftrightarrow>
        \<not> expectation_success df consistency_expectation"
    unfolding failed_types
    using pair_type_unique consistency_in_suite consistency_type by force
  moreover have "0 < row_count df \<longrightarrow>
            (expectation_success df consistency_expectation \<longleftrightarrow>
               (95 / 100 :: rat) \<le> of_nat (consistent_rows df) / of_nat (row_count df))"
    using c fraction_threshold [of "row_count df" "consistent_rows df"] by blast
  ultimately show ?thesis using c by blast
qed

theorem consistency_threshold_witness:
  "''TotalCharges'' \<in> set (columns (twenty_rows 1)) \<and>
   ''MonthlyCharges'' \<in> set (columns (twenty_rows 1)) \<and>
   row_count (twenty_rows 1) = 20 \<and> consistent_rows (twenty_rows 1) = 19 \<and>
   expectation_success (twenty_rows 1) consistency_expectation \<and>
   ''expect_column_pair_values_A_to_be_greater_than_B''
      \<notin> set (snd (ge_validation (twenty_rows 1))) \<and>
   row_count (twenty_rows 2) = 20 \<and> consistent_rows (twenty_rows 2) = 18 \<and>
   \<not> expectation_success (twenty_rows 2) consistency_expectation \<and>
   ''expect_column_pair_values_A_to_be_greater_than_B''
      \<in> set (snd (ge_validation (twenty_rows 2)))"
proof -
  have a1: "''TotalCharges'' \<in> set (columns (twenty_rows 1))"
    and b1: "''MonthlyCharges'' \<in> set (columns (twenty_rows 1))"
    and a2: "''TotalCharges'' \<in> set (columns (twenty_rows 2))"
    and b2: "''MonthlyCharges'' \<in> set (columns (twenty_rows 2))"
    by (simp_all add: columns_def twenty_rows_def telco_rows_def)
  have n1: "row_count (twenty_rows 1) = 20" by code_simp
  have g1: "consistent_rows (twenty_rows 1) = 19" by code_simp
  have n2: "row_count (twenty_rows 2) = 20" by code_simp
  have g2: "consistent_rows (twenty_rows 2) = 18" by code_simp
  from consistency_threshold [OF a1 b1] consistency_threshold [OF a2 b2] a1 b1 n1 g1 n2 g2
  show ?thesis by simp
qed

text \<open>Scenario 5 of the specification, through the whole validator.\<close>

lemma scenario_5:
  "validate_telco_data True parse (twenty_rows 1) = Inr ((True, []), twenty_rows 1)"
  "validate_telco_data True parse (twenty_rows 2) =
     Inr ((False, [''expect_column_pair_values_A_to_be_greater_than_B'']), twenty_rows 2)"
  unfolding validate_telco_data_def by code_simp+

end
